theory Spec2Isabelle
  imports Main "HOL-Library.AList" "HOL-Library.Sublist"
begin

section \<open>JavaScript values held by the configuration object\<close>

text \<open>
  \<^verbatim>\<open>botConfig\<close> (core/config.ts) is typed \<^verbatim>\<open>any\<close>: it holds whatever the parser
  returned, next to its own methods. The model is the tree of JavaScript values: the
  primitives, the objects, and two kinds of values that are not data. An object is the
  list of its own properties, key and value, looked up by key with \<open>map_of\<close> and
  written with \<open>AList.update\<close>; an array is an object whose own properties are its
  elements under the decimal renderings of their indices. \<open>JFunction\<close> is a function
  that is not a constructor (a method of \<^verbatim>\<open>botConfig\<close>, or a built-in method found
  through a prototype), \<open>JRuntime\<close> is any other object of the runtime (a constructor,
  a prototype); both carry the name under which they were found.
  Aliasing between two places of the tree is not represented.
  A number is an opaque payload here (the code never computes with one).
\<close>

datatype obj_kind = Plain | Array

datatype jsval =
    JUndefined
  | JNull
  | JBool bool
  | JNum int
  | JStr string
  | JObj obj_kind "(string \<times> jsval) list"
  | JFunction string
  | JRuntime string

text \<open>What a JavaScript \<^verbatim>\<open>throw\<close> or a rejected promise carries.\<close>

datatype exn =
    TypeError
  | FsError
  | JsError string
  | Rejected string

text \<open>
  The result of an operation on a value: a value, an exception, or \<open>Beyond\<close>. The
  properties of a constructor or of a prototype, the values of the properties that every
  function has, and the names that the prototypes of arrays, strings, numbers and
  booleans add (they differ between versions of the runtime) are not described by this
  theory. An operation whose answer depends on them answers \<open>Beyond\<close>, and a run that
  meets \<open>Beyond\<close> ends in \<open>LeftModel\<close>: nothing is stated about such a run.
\<close>

datatype 'a res = Val 'a | Throw exn | Beyond

datatype outcome = Returned | Threw exn | LeftModel

text \<open>
  A segment of a \<^verbatim>\<open>JSONPath\<close> is a string or a number; used as a property key, a
  number is its decimal rendering.
\<close>

datatype segment = Key string | Idx nat

fun show_nat :: "nat \<Rightarrow> string" where
  "show_nat n =
     (if n < 10 then [''0123456789'' ! n]
      else show_nat (n div 10) @ [''0123456789'' ! (n mod 10)])"

declare show_nat.simps [simp del]

fun prop_key :: "segment \<Rightarrow> string" where
  "prop_key (Key s) = s"
| "prop_key (Idx n) = show_nat n"

text \<open>
  The names that every object inherits from \<^verbatim>\<open>Object.prototype\<close>, and the names that
  a function has of its own or inherits from \<^verbatim>\<open>Function.prototype\<close>.
\<close>

definition object_prototype_names :: "string list" where
  "object_prototype_names =
     [''constructor'', ''__defineGetter__'', ''__defineSetter__'', ''hasOwnProperty'',
      ''__lookupGetter__'', ''__lookupSetter__'', ''isPrototypeOf'', ''propertyIsEnumerable'',
      ''toString'', ''valueOf'', ''__proto__'', ''toLocaleString'']"

definition function_names :: "string list" where
  "function_names =
     [''length'', ''name'', ''arguments'', ''caller'', ''apply'', ''bind'', ''call'']"

text \<open>
  The value found under a name of \<^verbatim>\<open>Object.prototype\<close>: the constructor, the
  prototype, or a built-in method.
\<close>

definition inherited :: "string \<Rightarrow> jsval" where
  "inherited k = (if k = ''constructor'' \<or> k = ''__proto__'' then JRuntime k else JFunction k)"

text \<open>
  A key that is written like an identifier: a name that the prototype of arrays,
  strings, numbers or booleans may hold in some version of the runtime.
\<close>

definition name_start :: "char \<Rightarrow> bool" where
  "name_start ch =
     (ch \<in> set ''abcdefghijklmnopqrstuvwxyzABCDEFGHIJKLMNOPQRSTUVWXYZ_$'')"

fun identifier_like :: "string \<Rightarrow> bool" where
  "identifier_like [] = False"
| "identifier_like (ch # cs) =
     (name_start ch \<and> list_all (\<lambda>d. name_start d \<or> d \<in> set ''0123456789'') cs)"

text \<open>
  \<^verbatim>\<open>k in v\<close>: a TypeError unless \<^verbatim>\<open>v\<close> is an object; on an object, true for an own
  property and for an inherited one. An array has \<^verbatim>\<open>length\<close>.
\<close>

fun js_in :: "string \<Rightarrow> jsval \<Rightarrow> bool res" where
  "js_in k (JObj kind ps) =
     (if map_of ps k \<noteq> None then Val True
      else if k \<in> set object_prototype_names then Val True
      else (case kind of
              Plain \<Rightarrow> Val False
            | Array \<Rightarrow>
                if k = ''length'' then Val True
                else if identifier_like k then Beyond
                else Val False))"
| "js_in k (JFunction f) = Val (k \<in> set function_names \<or> k \<in> set object_prototype_names)"
| "js_in k (JRuntime r) = Beyond"
| "js_in k v = Throw TypeError"

text \<open>
  \<^verbatim>\<open>v[k]\<close>: a TypeError on \<^verbatim>\<open>undefined\<close> and \<^verbatim>\<open>null\<close>; an own property before an
  inherited one; \<^verbatim>\<open>undefined\<close> for a property that is nowhere. A string has its
  characters at its indices, and its \<^verbatim>\<open>length\<close>.
\<close>

fun js_get :: "jsval \<Rightarrow> string \<Rightarrow> jsval res" where
  "js_get JUndefined k = Throw TypeError"
| "js_get JNull k = Throw TypeError"
| "js_get (JObj kind ps) k =
     (case map_of ps k of
        Some x \<Rightarrow> Val x
      | None \<Rightarrow>
          if k \<in> set object_prototype_names then Val (inherited k)
          else (case kind of
                  Plain \<Rightarrow> Val JUndefined
                | Array \<Rightarrow>
                    if k = ''length'' \<or> identifier_like k then Beyond else Val JUndefined))"
| "js_get (JFunction f) k =
     (if k \<in> set function_names \<or> k \<in> set object_prototype_names then Beyond
      else Val JUndefined)"
| "js_get (JRuntime r) k = Beyond"
| "js_get (JStr s) k =
     (case find (\<lambda>i. show_nat i = k) [0..<length s] of
        Some i \<Rightarrow> Val (JStr [s ! i])
      | None \<Rightarrow>
          if k = ''length'' then Val (JNum (int (length s)))
          else if k \<in> set object_prototype_names then Val (inherited k)
          else if identifier_like k then Beyond
          else Val JUndefined)"
| "js_get v k =
     (if k \<in> set object_prototype_names then Val (inherited k)
      else if identifier_like k then Beyond
      else Val JUndefined)"

text \<open>
  \<^verbatim>\<open>v[k] = x\<close> in strict mode (config.ts is an ES module): a TypeError on a
  primitive; on an object an own property is replaced, and a property that is not an
  own one is added, except that \<^verbatim>\<open>__proto__\<close> and the \<^verbatim>\<open>length\<close> of an array are
  setters of the runtime. What a write does to a function is not described.
\<close>

fun js_set :: "jsval \<Rightarrow> string \<Rightarrow> jsval \<Rightarrow> jsval res" where
  "js_set (JObj kind ps) k x =
     (if map_of ps k \<noteq> None then Val (JObj kind (AList.update k x ps))
      else if k = ''__proto__'' \<or> (kind = Array \<and> k = ''length'') then Beyond
      else Val (JObj kind (AList.update k x ps)))"
| "js_set (JFunction f) k x = Beyond"
| "js_set (JRuntime r) k x = Beyond"
| "js_set v k x = Throw TypeError"

fun js_truthy :: "jsval \<Rightarrow> bool" where
  "js_truthy JUndefined = False"
| "js_truthy JNull = False"
| "js_truthy (JBool b) = b"
| "js_truthy (JNum n) = (n \<noteq> 0)"
| "js_truthy (JStr s) = (s \<noteq> [])"
| "js_truthy v = True"

fun is_object :: "jsval \<Rightarrow> bool" where
  "is_object (JObj kind ps) = True"
| "is_object (JFunction f) = True"
| "is_object (JRuntime r) = True"
| "is_object v = False"

text \<open>
  The value of a tree at a path, when every segment of the path names an own property
  of the object reached so far. This is the notion of a path that exists in the tree;
  the code's own test is \<open>path_check\<close> below.
\<close>

fun value_at :: "jsval \<Rightarrow> segment list \<Rightarrow> jsval option" where
  "value_at v [] = Some v"
| "value_at (JObj kind ps) (s # ss) =
     (case map_of ps (prop_key s) of None \<Rightarrow> None | Some c \<Rightarrow> value_at c ss)"
| "value_at v (s # ss) = None"

text \<open>
  The own enumerable properties of a value, which \<^verbatim>\<open>Object.assign\<close> copies from its
  source: those of an object, the characters of a string, none of another value.
\<close>

fun own_props :: "jsval \<Rightarrow> (string \<times> jsval) list" where
  "own_props (JObj kind ps) = ps"
| "own_props (JStr s) = map (\<lambda>i. (show_nat i, JStr [s ! i])) [0..<length s]"
| "own_props v = []"

section \<open>The event logger and the state of core/config.ts\<close>

datatype EventCategory = Warning | Error | Info

record event =
  category :: EventCategory
  location :: string
  description :: string

text \<open>
  A request made with \<^verbatim>\<open>readFile(CONFIG_LOCATION, "utf8", callback)\<close>: the callback of
  \<open>editConfigOption\<close>, with the \<^verbatim>\<open>location\<close> and \<^verbatim>\<open>newValue\<close> it closes over.
\<close>

datatype file_job = EditJob "segment list" jsval

text \<open>
  \<open>botConfig\<close> is the list of the own properties of the object \<^verbatim>\<open>botConfig\<close>, its
  three methods included; \<open>events\<close> is what \<^verbatim>\<open>eventLogger.logEvent\<close> has received,
  each event with its verbosity; \<open>config_file\<close> is the content of \<^verbatim>\<open>./config.jsonc\<close>,
  \<open>None\<close> when the file cannot be read; \<open>file_writable\<close> tells whether a
  \<^verbatim>\<open>writeFile\<close> on it succeeds; \<open>io_queue\<close> holds the \<^verbatim>\<open>readFile\<close> requests whose
  callback has not run yet.
\<close>

record config_state =
  botConfig :: "(string \<times> jsval) list"
  events :: "(event \<times> nat) list"
  config_file :: "string option"
  file_writable :: bool
  io_queue :: "file_job list"

text \<open>The object literal of config.ts, before anything is loaded: its three methods.\<close>

definition botConfig_methods :: "(string \<times> jsval) list" where
  "botConfig_methods =
     [(''readConfigFromFileSystem'', JFunction ''readConfigFromFileSystem''),
      (''_set'', JFunction ''_set''),
      (''editConfigOption'', JFunction ''editConfigOption'')]"

definition logEvent :: "event \<Rightarrow> nat \<Rightarrow> config_state \<Rightarrow> config_state" where
  "logEvent e verbosity st = st\<lparr>events := events st @ [(e, verbosity)]\<rparr>"

section \<open>core/config.ts\<close>

text \<open>
  The first loop of \<^verbatim>\<open>editConfigOption\<close>: \<^verbatim>\<open>currentPosition\<close> starts at the config
  object and follows the segments while \<^verbatim>\<open>location[i] in currentPosition\<close> holds.
  \<open>Val False\<close> is the branch that logs and returns; \<open>Throw\<close> is the TypeError of
  \<^verbatim>\<open>in\<close> applied to a value that is not an object.
\<close>

fun path_check :: "jsval \<Rightarrow> segment list \<Rightarrow> bool res" where
  "path_check currentPosition [] = Val True"
| "path_check currentPosition (s # ss) =
     (case js_in (prop_key s) currentPosition of
        Throw e \<Rightarrow> Throw e
      | Beyond \<Rightarrow> Beyond
      | Val False \<Rightarrow> Val False
      | Val True \<Rightarrow>
          (case js_get currentPosition (prop_key s) of
             Throw e \<Rightarrow> Throw e
           | Beyond \<Rightarrow> Beyond
           | Val next \<Rightarrow> path_check next ss))"

text \<open>
  The body of \<^verbatim>\<open>_set(path, value)\<close>: \<^verbatim>\<open>schema\<close> moves down the first
  \<^verbatim>\<open>path.length - 1\<close> segments and the last segment is assigned. The source mutates
  the object that \<^verbatim>\<open>schema\<close> refers to; the model returns the tree rebuilt around the
  changed child (a child that was assigned into is an object, held by \<^verbatim>\<open>schema\<close>
  under that key). For the empty path the loop does not run and \<^verbatim>\<open>path[-1]\<close> is
  \<^verbatim>\<open>undefined\<close>, so the assignment writes the property named \<^verbatim>\<open>undefined\<close>.
\<close>

fun botConfig_set :: "jsval \<Rightarrow> segment list \<Rightarrow> jsval \<Rightarrow> jsval res" where
  "botConfig_set schema [] v = js_set schema ''undefined'' v"
| "botConfig_set schema [s] v = js_set schema (prop_key s) v"
| "botConfig_set schema (s # ss) v =
     (case js_get schema (prop_key s) of
        Throw e \<Rightarrow> Throw e
      | Beyond \<Rightarrow> Beyond
      | Val child \<Rightarrow>
          (case botConfig_set child ss v of
             Throw e \<Rightarrow> Throw e
           | Beyond \<Rightarrow> Beyond
           | Val child' \<Rightarrow> js_set schema (prop_key s) child'))"

definition edit_missing_event :: event where
  "edit_missing_event =
     \<lparr>category = Error, location = ''core'',
      description =
        ''An attempt was made to edit a config value that doesn't exist, cancelling edit''\<rparr>"

definition edit_done_event :: event where
  "edit_done_event =
     \<lparr>category = Info, location = ''any'',
      description = ''`config.jsonc` changed and diff applied in memory''\<rparr>"

text \<open>
  \<^verbatim>\<open>editConfigOption(location, newValue)\<close> up to the point where its promise settles.
  After the check, \<^verbatim>\<open>this._set\<close> is read from the config object, where a loaded or
  edited key of that name has replaced the method: the call of a value that is not a
  function is a TypeError, and what another function would do is not described.
  \<^verbatim>\<open>readFile\<close> of \<^verbatim>\<open>node:fs\<close> takes a callback and returns \<^verbatim>\<open>undefined\<close>, so the
  \<^verbatim>\<open>await\<close> in front of it does not wait for the file: the call only queues the
  request, and the callback runs later (\<open>run_edit_job\<close>).
\<close>

definition editConfigOption ::
  "config_state \<Rightarrow> segment list \<Rightarrow> jsval \<Rightarrow> outcome \<times> config_state" where
  "editConfigOption st location' newValue =
     (case path_check (JObj Plain (botConfig st)) location' of
        Throw e \<Rightarrow> (Threw e, st)
      | Beyond \<Rightarrow> (LeftModel, st)
      | Val False \<Rightarrow> (Returned, logEvent edit_missing_event 1 st)
      | Val True \<Rightarrow>
          (case js_get (JObj Plain (botConfig st)) ''_set'' of
             Throw e \<Rightarrow> (Threw e, st)
           | Beyond \<Rightarrow> (LeftModel, st)
           | Val (JFunction f) \<Rightarrow>
               if f = ''_set'' then
                 (case botConfig_set (JObj Plain (botConfig st)) location' newValue of
                    Throw e \<Rightarrow> (Threw e, st)
                  | Beyond \<Rightarrow> (LeftModel, st)
                  | Val this' \<Rightarrow>
                      (Returned,
                       st\<lparr>botConfig := own_props this',
                          io_queue := io_queue st @ [EditJob location' newValue]\<rparr>))
               else (LeftModel, st)
           | Val (JRuntime r) \<Rightarrow> (LeftModel, st)
           | Val other \<Rightarrow> (Threw TypeError, st)))"

text \<open>
  The callback given to \<^verbatim>\<open>readFile\<close>. \<open>patch file location newValue\<close> stands for
  \<^verbatim>\<open>applyEdits(file, modify(file, location, newValue, {formattingOptions}))\<close> of the
  package jsonc-parser, which is not part of the repository; it may throw.
  An error of \<^verbatim>\<open>readFile\<close> is thrown inside the callback, after the promise of
  \<open>editConfigOption\<close> has settled. The callback of \<^verbatim>\<open>writeFile\<close> takes no error
  argument: it logs whether the file was written or not.
\<close>

fun run_edit_job ::
  "(string \<Rightarrow> segment list \<Rightarrow> jsval \<Rightarrow> exn + string) \<Rightarrow> config_state \<Rightarrow> file_job
     \<Rightarrow> outcome \<times> config_state" where
  "run_edit_job patch st (EditJob location' newValue) =
     (case config_file st of
        None \<Rightarrow> (Threw FsError, st)
      | Some file \<Rightarrow>
          (case patch file location' newValue of
             Inl e \<Rightarrow> (Threw e, st)
           | Inr newConfig \<Rightarrow>
               (Returned,
                logEvent edit_done_event 2
                  (if file_writable st then st\<lparr>config_file := Some newConfig\<rparr> else st))))"

text \<open>
  The value at a path in a fresh parse of the backing file, \<open>None\<close> when the file
  cannot be read or has nothing at the path. \<open>parseJSONC\<close> is \<^verbatim>\<open>parse\<close> of
  jsonc-parser, which is not part of the repository: a parameter. That function is
  fault tolerant: it answers every text with a value and reports what it could not read
  in an array that the caller may pass; it does not throw.
\<close>

definition fresh_value_at ::
  "(string \<Rightarrow> jsval) \<Rightarrow> config_state \<Rightarrow> segment list \<Rightarrow> jsval option" where
  "fresh_value_at parseJSONC st p =
     (case config_file st of
        None \<Rightarrow> None
      | Some text \<Rightarrow> value_at (parseJSONC text) p)"

text \<open>
  \<^verbatim>\<open>Object.assign(target, source)\<close> on an object as target: every own enumerable
  property of the source is assigned, in order.
\<close>

fun assign_props ::
  "(string \<times> jsval) list \<Rightarrow> (string \<times> jsval) list \<Rightarrow> (string \<times> jsval) list res" where
  "assign_props target [] = Val target"
| "assign_props target ((k, v) # rest) =
     (case js_set (JObj Plain target) k v of
        Throw e \<Rightarrow> Throw e
      | Beyond \<Rightarrow> Beyond
      | Val target' \<Rightarrow> assign_props (own_props target') rest)"

definition object_assign ::
  "(string \<times> jsval) list \<Rightarrow> jsval \<Rightarrow> (string \<times> jsval) list res" where
  "object_assign target source = assign_props target (own_props source)"

definition config_load_error :: exn where
  "config_load_error = JsError ''Unable to locate or process config.jsonc, are you sure it exists?''"

text \<open>
  \<^verbatim>\<open>readConfigFromFileSystem()\<close>. Whatever is thrown inside the \<^verbatim>\<open>try\<close> is replaced
  by the one error of the \<^verbatim>\<open>catch\<close>; \<^verbatim>\<open>readFileSync\<close> throws when the file cannot be
  read, and the parser, called without an array for its errors, returns a value.
\<close>

definition readConfigFromFileSystem ::
  "(string \<Rightarrow> jsval) \<Rightarrow> config_state \<Rightarrow> outcome \<times> config_state" where
  "readConfigFromFileSystem parseJSONC st =
     (case config_file st of
        None \<Rightarrow> (Threw config_load_error, st)
      | Some text \<Rightarrow>
          (case object_assign (botConfig st) (parseJSONC text) of
             Throw e \<Rightarrow> (Threw config_load_error, st)
           | Beyond \<Rightarrow> (LeftModel, st)
           | Val props \<Rightarrow> (Returned, st\<lparr>botConfig := props\<rparr>)))"

section \<open>core/modules.ts\<close>

text \<open>
  The class \<^verbatim>\<open>Module\<close>, field by field. The two callbacks \<^verbatim>\<open>executeCommand\<close> and
  \<^verbatim>\<open>initialize\<close> are not data; an invocation of \<^verbatim>\<open>executeCommand\<close> is identified
  below by the place of its module in the tree. \<open>enabled\<close> is declared boolean but is
  assigned \<^verbatim>\<open>this.config.enabled\<close> unchecked, so it holds any value.
\<close>

datatype module =
  Module (command: string) (aliases: "string list") (helpMessage: string)
         (submodules: "module list") (enabled: jsval) (config: jsval)
         (rootModuleName: string)

definition no_config_event :: "string \<Rightarrow> event" where
  "no_config_event root =
     \<lparr>category = Warning, location = ''core'',
      description =
        ''No config found for '' @ [CHR 0x22] @ root @ [CHR 0x22] @ '', ''
        @ ''all modules and submodules for '' @ root @ '' will be disabled.''\<rparr>"

definition registered_event :: "string \<Rightarrow> event" where
  "registered_event c =
     \<lparr>category = Info, location = ''core'', description = ''New module registered: '' @ c\<rparr>"

text \<open>
  \<^verbatim>\<open>if (rootModuleName) ... else this.rootModuleName = this.command\<close>: the optional
  argument counts as missing when it is \<^verbatim>\<open>undefined\<close> or the empty string.
\<close>

definition root_name :: "string \<Rightarrow> string option \<Rightarrow> string" where
  "root_name c r = (case r of None \<Rightarrow> c | Some n \<Rightarrow> if n = [] then c else n)"

text \<open>
  The constructor. Its third parameter \<^verbatim>\<open>onCommandExecute\<close> is not used by its body
  and is left out. The result is the new object, or what the constructor throws:
  \<^verbatim>\<open>in\<close> applied to a \<^verbatim>\<open>botConfig.modules\<close> that is not an object, or the read of
  \<^verbatim>\<open>enabled\<close> from a \<^verbatim>\<open>null\<close> entry.
\<close>

definition new_Module ::
  "config_state \<Rightarrow> string \<Rightarrow> string \<Rightarrow> string option \<Rightarrow> module res \<times> config_state" where
  "new_Module st c h r =
     (let root = root_name c r in
      case js_get (JObj Plain (botConfig st)) ''modules'' of
        Throw e \<Rightarrow> (Throw e, st)
      | Beyond \<Rightarrow> (Beyond, st)
      | Val modules \<Rightarrow>
          (case js_in root modules of
             Throw e \<Rightarrow> (Throw e, st)
           | Beyond \<Rightarrow> (Beyond, st)
           | Val True \<Rightarrow>
               (case js_get modules root of
                  Throw e \<Rightarrow> (Throw e, st)
                | Beyond \<Rightarrow> (Beyond, st)
                | Val cfg \<Rightarrow>
                    (case js_get cfg ''enabled'' of
                       Throw e \<Rightarrow> (Throw e, st)
                     | Beyond \<Rightarrow> (Beyond, st)
                     | Val en \<Rightarrow>
                         (Val (Module c [] h [] en cfg root),
                          logEvent (registered_event c) 3 st)))
           | Val False \<Rightarrow>
               (Val (Module c [] h [] (JBool False) JUndefined root),
                logEvent (registered_event c) 3 (logEvent (no_config_event root) 1 st))))"

fun registerSubmodule :: "module \<Rightarrow> module \<Rightarrow> module" where
  "registerSubmodule (Module c a h subs en cfg r) submoduleToRegister =
     Module c a h (subs @ [submoduleToRegister]) en cfg r"

text \<open>
  The events that a step added to the log, and how many of them are warnings.
\<close>

definition new_events :: "config_state \<Rightarrow> config_state \<Rightarrow> (event \<times> nat) list" where
  "new_events st st' = drop (length (events st)) (events st')"

definition warnings :: "(event \<times> nat) list \<Rightarrow> (event \<times> nat) list" where
  "warnings es = filter (\<lambda>(e, v). category e = Warning) es"

section \<open>Command dispatch\<close>

text \<open>
  The code that matches an incoming text against the module tree and calls
  \<^verbatim>\<open>executeCommand\<close> is not among the sources; core/modules.ts holds the class only.
  The definitions of this section follow section 4.1 of the specification.
  A module is named by its place: the list of indices that leads to it from the roots.
\<close>

text \<open>
  Modelled from the spec: the tokens of the dispatcher, which is missing from the
  sources. A token is delimited by whitespace; what follows it is the remaining raw
  argument string.
\<close>

definition is_space :: "char \<Rightarrow> bool" where
  "is_space ch = (ch \<in> set [CHR '' '', CHR 0x09, CHR 0x0A, CHR 0x0D])"

definition next_token :: "string \<Rightarrow> string \<times> string" where
  "next_token input =
     (let s = dropWhile is_space input
      in (takeWhile (\<lambda>ch. \<not> is_space ch) s, dropWhile (\<lambda>ch. \<not> is_space ch) s))"

text \<open>
  Modelled from the spec: the match of a token against a module, missing from the
  sources. The token is compared with \<^verbatim>\<open>command\<close> and with every one of
  \<^verbatim>\<open>aliases\<close>, without regard to case.
\<close>

definition lower_char :: "char \<Rightarrow> char" where
  "lower_char ch =
     (case map_of (zip ''ABCDEFGHIJKLMNOPQRSTUVWXYZ'' ''abcdefghijklmnopqrstuvwxyz'') ch of
        None \<Rightarrow> ch
      | Some l \<Rightarrow> l)"

definition matches :: "module \<Rightarrow> string \<Rightarrow> bool" where
  "matches m tok =
     (map lower_char tok \<in> set (map (map lower_char) (command m # aliases m)))"

text \<open>
  What a dispatch ends in: \<^verbatim>\<open>executeCommand\<close> of the module at a place invoked with
  an argument string, the help of the module at a place, or no match.
\<close>

datatype dispatch_result =
    Executed "nat list" string
  | Help "nat list"
  | NoMatch

text \<open>
  Modelled from the spec: the command resolution algorithm of the dispatcher, missing
  from the sources. \<open>enter\<close> is the step taken on a matched module: without
  submodules, \<^verbatim>\<open>executeCommand\<close> is invoked with the remaining raw argument string;
  with submodules, the next token is consumed against the children, and when no child
  matches the answer is the help of the module. \<open>pick\<close> goes through siblings, the
  first of them being number \<open>i\<close>: a disabled module is never reachable, so it is
  passed over even when the token is its command, and the first enabled sibling that
  matches is entered.
\<close>

fun enter :: "module \<Rightarrow> nat list \<Rightarrow> string \<Rightarrow> dispatch_result"
  and pick :: "module list \<Rightarrow> nat list \<Rightarrow> nat \<Rightarrow> string \<Rightarrow> string \<Rightarrow> dispatch_result option"
where
  "enter (Module c a h subs en cfg r) pos rest =
     (if subs = [] then Executed pos rest
      else (case pick subs pos 0 (fst (next_token rest)) (snd (next_token rest)) of
              Some res \<Rightarrow> res
            | None \<Rightarrow> Help pos))"
| "pick [] pos i tok rest = None"
| "pick (m # ms) pos i tok rest =
     (if js_truthy (enabled m) \<and> matches m tok then Some (enter m (pos @ [i]) rest)
      else pick ms pos (Suc i) tok rest)"

text \<open>
  Modelled from the spec: the entry of the dispatcher, missing from the sources. The
  first token of the raw input is matched at the root level.
\<close>

definition dispatch :: "module list \<Rightarrow> string \<Rightarrow> dispatch_result" where
  "dispatch roots input =
     (case pick roots [] 0 (fst (next_token input)) (snd (next_token input)) of
        Some res \<Rightarrow> res
      | None \<Rightarrow> NoMatch)"

text \<open>The module at a place of the tree.\<close>

fun module_at :: "module list \<Rightarrow> nat list \<Rightarrow> module option" where
  "module_at ms [] = None"
| "module_at ms [i] = (if i < length ms then Some (ms ! i) else None)"
| "module_at ms (i # p) = (if i < length ms then module_at (submodules (ms ! i)) p else None)"

text \<open>Every module on the way to a place is enabled.\<close>

fun enabled_along :: "module list \<Rightarrow> nat list \<Rightarrow> bool" where
  "enabled_along ms [] = True"
| "enabled_along ms (i # p) =
     (i < length ms \<and> js_truthy (enabled (ms ! i)) \<and> enabled_along (submodules (ms ! i)) p)"

section \<open>src/modules/note.ts\<close>

type_synonym Snowflake = string

record Note =
  contents :: string
  addedBy :: Snowflake
  date :: string

record userRecord =
  user :: Snowflake
  "notes" :: "Note list"

text \<open>Of a discord.js \<^verbatim>\<open>User\<close> the handlers read \<^verbatim>\<open>id\<close> and \<^verbatim>\<open>tag\<close>.\<close>

record User =
  id' :: Snowflake
  tag :: string

text \<open>
  \<^verbatim>\<open>util.embed.errorEmbed\<close> and \<^verbatim>\<open>util.embed.successEmbed\<close> build the reply from a
  message; core/util.js is not among the sources, so the two are constructors.
\<close>

datatype embed = errorEmbed string | successEmbed string

text \<open>
  \<^verbatim>\<open>JSON.stringify\<close> and \<^verbatim>\<open>JSON.parse\<close> are built-ins of the language: the text of a
  value is a constructor around it, and parsing gives the value back.
\<close>

datatype json_text = JSON_stringify jsval

fun JSON_parse :: "json_text \<Rightarrow> jsval" where
  "JSON_parse (JSON_stringify v) = v"

record reply_file =
  attachment :: json_text
  name :: string

datatype db_op = FindOne | InsertOne | UpdateOne | DeleteOne

datatype db_call =
    findOne Snowflake
  | insertOne userRecord
  | updateOne Snowflake "Note list"
  | deleteOne Snowflake

text \<open>
  What the handlers act on: the documents of the collection \<^verbatim>\<open>notes\<close> in insertion
  order, the calls made on the collection so far, and the files delivered with
  \<^verbatim>\<open>util.replyToInteraction\<close>.
\<close>

record world =
  collection :: "userRecord list"
  db_calls :: "db_call list"
  replies :: "reply_file list"

text \<open>
  How the collaborators answer during one invocation: \<^verbatim>\<open>util.client.users.fetch\<close>, the
  name of the error with which a collection call of a kind rejects (\<open>None\<close> when it
  resolves), the same for the delivery of a reply, and \<^verbatim>\<open>util.formatDate(new Date())\<close>.
  A call that rejects leaves the collection as it was.
\<close>

record env =
  fetch_user :: "string \<Rightarrow> exn + User"
  db_fault :: "db_op \<Rightarrow> string option"
  reply_fault :: "string option"
  now :: string

definition healthy :: "env \<Rightarrow> bool" where
  "healthy e = (db_fault e FindOne = None \<and> db_fault e InsertOne = None
     \<and> db_fault e UpdateOne = None \<and> db_fault e DeleteOne = None \<and> reply_fault e = None)"

fun update_first :: "Snowflake \<Rightarrow> Note list \<Rightarrow> userRecord list \<Rightarrow> userRecord list" where
  "update_first u ns [] = [\<lparr>user = u, notes = ns\<rparr>]"
| "update_first u ns (r # rs) =
     (if user r = u then r\<lparr>notes := ns\<rparr> # rs else r # update_first u ns rs)"

fun delete_first :: "Snowflake \<Rightarrow> userRecord list \<Rightarrow> userRecord list" where
  "delete_first u [] = []"
| "delete_first u (r # rs) = (if user r = u then rs else r # delete_first u rs)"

text \<open>
  The four calls of the MongoDB driver that the module makes. With the filter
  \<^verbatim>\<open>{user: u}\<close>, \<^verbatim>\<open>findOne\<close> gives the first matching document or \<^verbatim>\<open>null\<close>,
  \<^verbatim>\<open>updateOne\<close> with \<^verbatim>\<open>$set\<close> and \<^verbatim>\<open>upsert\<close> changes the first matching document or
  inserts one, and \<^verbatim>\<open>deleteOne\<close> removes the first matching document; \<^verbatim>\<open>insertOne\<close>
  adds a document. Every call is recorded, whether it resolves or rejects.
\<close>

definition collection_call ::
  "env \<Rightarrow> db_op \<Rightarrow> db_call \<Rightarrow> (userRecord list \<Rightarrow> userRecord list) \<Rightarrow> world
     \<Rightarrow> (exn + unit) \<times> world" where
  "collection_call e op c f w =
     (case db_fault e op of
        Some n \<Rightarrow> (Inl (Rejected n), w\<lparr>db_calls := db_calls w @ [c]\<rparr>)
      | None \<Rightarrow> (Inr (), w\<lparr>collection := f (collection w), db_calls := db_calls w @ [c]\<rparr>))"

text \<open>The record of a user: the first document of the collection with that user.\<close>

definition record_of :: "Snowflake \<Rightarrow> world \<Rightarrow> userRecord option" where
  "record_of u w = find (\<lambda>r. user r = u) (collection w)"

definition records_findOne ::
  "env \<Rightarrow> Snowflake \<Rightarrow> world \<Rightarrow> (exn + userRecord option) \<times> world" where
  "records_findOne e u w =
     (case collection_call e FindOne (findOne u) (\<lambda>rs. rs) w of
        (Inl x, w') \<Rightarrow> (Inl x, w')
      | (Inr _, w') \<Rightarrow> (Inr (record_of u w'), w'))"

definition records_insertOne :: "env \<Rightarrow> userRecord \<Rightarrow> world \<Rightarrow> (exn + unit) \<times> world" where
  "records_insertOne e r w = collection_call e InsertOne (insertOne r) (\<lambda>rs. rs @ [r]) w"

definition records_updateOne ::
  "env \<Rightarrow> Snowflake \<Rightarrow> Note list \<Rightarrow> world \<Rightarrow> (exn + unit) \<times> world" where
  "records_updateOne e u ns w = collection_call e UpdateOne (updateOne u ns) (update_first u ns) w"

definition records_deleteOne :: "env \<Rightarrow> Snowflake \<Rightarrow> world \<Rightarrow> (exn + unit) \<times> world" where
  "records_deleteOne e u w = collection_call e DeleteOne (deleteOne u) (delete_first u) w"

definition getRecord :: "env \<Rightarrow> User \<Rightarrow> world \<Rightarrow> (exn + userRecord option) \<times> world" where
  "getRecord e usr w = records_findOne e (id' usr) w"

definition deleteRecord :: "env \<Rightarrow> User \<Rightarrow> world \<Rightarrow> (exn + unit) \<times> world" where
  "deleteRecord e usr w = records_deleteOne e (id' usr) w"

text \<open>
  \<^verbatim>\<open>await call.catch(err => { return util.embed.errorEmbed(msg + err.name); })\<close>:
  the value of the awaited expression. A rejection is turned into the value that the
  handler of \<^verbatim>\<open>catch\<close> returns, so nothing is thrown.
\<close>

fun exn_name :: "exn \<Rightarrow> string" where
  "exn_name TypeError = ''TypeError''"
| "exn_name FsError = ''Error''"
| "exn_name (JsError m) = ''Error''"
| "exn_name (Rejected n) = n"

definition caught :: "string \<Rightarrow> (exn + unit) \<times> world \<Rightarrow> embed option \<times> world" where
  "caught msg res =
     (case res of
        (Inl x, w) \<Rightarrow> (Some (errorEmbed (msg @ exn_name x)), w)
      | (Inr _, w) \<Rightarrow> (None, w))"

text \<open>
  \<^verbatim>\<open>args.find(arg => arg.name === n)!.value!.toString()\<close>: the options of the command
  as pairs of name and rendered value; a missing option is a TypeError.
\<close>

definition arg_value :: "(string \<times> string) list \<Rightarrow> string \<Rightarrow> exn + string" where
  "arg_value args n = (case map_of args n of None \<Rightarrow> Inl TypeError | Some v \<Rightarrow> Inr v)"

text \<open>
  The handler of \<^verbatim>\<open>note add\<close>; \<open>caller\<close> is \<^verbatim>\<open>interaction.user.id\<close>. In both branches
  the awaited collection call is a statement: its value, the embed of \<open>caught\<close>
  included, is dropped, and the handler goes on to return the success embed.
\<close>

definition note_add ::
  "env \<Rightarrow> (string \<times> string) list \<Rightarrow> Snowflake \<Rightarrow> world \<Rightarrow> (exn + embed option) \<times> world" where
  "note_add e args caller w =
     (case arg_value args ''user'' of
        Inl x \<Rightarrow> (Inl x, w)
      | Inr userArg \<Rightarrow>
     (case fetch_user e userArg of
        Inl x \<Rightarrow> (Inl x, w)
      | Inr usr \<Rightarrow>
     if caller = id' usr then (Inr (Some (errorEmbed ''You cannot add a note for yourself'')), w)
     else
     (case arg_value args ''note'' of
        Inl x \<Rightarrow> (Inl x, w)
      | Inr noteContents \<Rightarrow>
     (let note = \<lparr>contents = noteContents, addedBy = caller, date = now e\<rparr> in
      case getRecord e usr w of
        (Inl x, w1) \<Rightarrow> (Inl x, w1)
      | (Inr (Some record), w1) \<Rightarrow>
          (case caught ''Database call failed with error ''
                  (records_updateOne e (id' usr) (notes record @ [note]) w1) of
             (dropped, w2) \<Rightarrow> (Inr (Some (successEmbed ''Succesfully added that note'')), w2))
      | (Inr None, w1) \<Rightarrow>
          (case caught ''Database call failed with erorr ''
                  (records_insertOne e \<lparr>user = id' usr, notes = [note]\<rparr> w1) of
             (dropped, w2) \<Rightarrow> (Inr (Some (successEmbed ''Succesfully added that note'')), w2))))))"

text \<open>The handler of \<^verbatim>\<open>note clear\<close>.\<close>

definition note_clear ::
  "env \<Rightarrow> (string \<times> string) list \<Rightarrow> world \<Rightarrow> (exn + embed option) \<times> world" where
  "note_clear e args w =
     (case arg_value args ''user'' of
        Inl x \<Rightarrow> (Inl x, w)
      | Inr userArg \<Rightarrow>
     (case fetch_user e userArg of
        Inl x \<Rightarrow> (Inl x, w)
      | Inr usr \<Rightarrow>
     (case getRecord e usr w of
        (Inl x, w1) \<Rightarrow> (Inl x, w1)
      | (Inr None, w1) \<Rightarrow>
          (Inr (Some (errorEmbed (''`'' @ tag usr @ ''` doesn't have any notes''))), w1)
      | (Inr (Some record), w1) \<Rightarrow>
          (case caught ''Database call failed with erorr '' (deleteRecord e usr w1) of
             (dropped, w2) \<Rightarrow>
               (Inr (Some (successEmbed (''Succesfully removed notes for `'' @ tag usr @ ''`''))),
                w2)))))"

text \<open>
  The handler of \<^verbatim>\<open>note get\<close>: the notes of the record go out as a JSON file and the
  handler returns nothing.
\<close>

definition note_json :: "Note \<Rightarrow> jsval" where
  "note_json n =
     JObj Plain [(''contents'', JStr (contents n)), (''addedBy'', JStr (addedBy n)),
                 (''date'', JStr (date n))]"

definition js_array :: "jsval list \<Rightarrow> jsval" where
  "js_array xs = JObj Array (zip (map show_nat [0..<length xs]) xs)"

definition notes_json :: "Note list \<Rightarrow> jsval" where
  "notes_json ns = JObj Plain [(''notes'', js_array (map note_json ns))]"

definition replyToInteraction :: "env \<Rightarrow> reply_file \<Rightarrow> world \<Rightarrow> (exn + unit) \<times> world" where
  "replyToInteraction e f w =
     (case reply_fault e of
        Some n \<Rightarrow> (Inl (Rejected n), w)
      | None \<Rightarrow> (Inr (), w\<lparr>replies := replies w @ [f]\<rparr>))"

definition note_get ::
  "env \<Rightarrow> (string \<times> string) list \<Rightarrow> world \<Rightarrow> (exn + embed option) \<times> world" where
  "note_get e args w =
     (case arg_value args ''user'' of
        Inl x \<Rightarrow> (Inl x, w)
      | Inr userArg \<Rightarrow>
     (case fetch_user e userArg of
        Inl x \<Rightarrow> (Inl x, w)
      | Inr usr \<Rightarrow>
     (case getRecord e usr w of
        (Inl x, w1) \<Rightarrow> (Inl x, w1)
      | (Inr None, w1) \<Rightarrow>
          (Inr (Some (errorEmbed (''`'' @ tag usr @ ''` doesn't have any notes''))), w1)
      | (Inr (Some record), w1) \<Rightarrow>
          (case replyToInteraction e
                  \<lparr>attachment = JSON_stringify (notes_json (notes record)),
                   name = ''notes_for_'' @ id' usr @ ''_'' @ now e @ ''.json''\<rparr> w1 of
             (Inl x, w2) \<Rightarrow> (Inl x, w2)
           | (Inr _, w2) \<Rightarrow> (Inr None, w2)))))"

text \<open>The data model keeps one record per user.\<close>

definition one_record_per_user :: "world \<Rightarrow> bool" where
  "one_record_per_user w = distinct (map user (collection w))"

section \<open>Concrete inputs\<close>

text \<open>
  A configuration with one string option and the section of one module, mirrored from a
  file; two more texts of that file; a module tree with a disabled root and a disabled
  leaf; two users, collaborators of the note module that resolve every call, and
  collaborators of which one kind of collection call rejects.
\<close>

definition example_text :: string where
  \<open>example_text = ''{"authToken": "abc", "modules": {"note": {"enabled": true}}}''\<close>

definition edited_text :: string where
  \<open>edited_text = ''{"authToken": "xyz", "modules": {"note": {"enabled": true}}}''\<close>

definition broken_text :: string where
  \<open>broken_text = ''{"authToken": ''\<close>

definition example_modules :: jsval where
  "example_modules = JObj Plain [(''note'', JObj Plain [(''enabled'', JBool True)])]"

definition example_config :: config_state where
  "example_config =
     \<lparr>botConfig = botConfig_methods
                   @ [(''authToken'', JStr ''abc''), (''modules'', example_modules)],
      events = [],
      config_file = Some example_text,
      file_writable = True,
      io_queue = []\<rparr>"

text \<open>The state before the load, with a file that breaks off inside its first property.\<close>

definition broken_config :: config_state where
  "broken_config =
     \<lparr>botConfig = botConfig_methods,
      events = [],
      config_file = Some broken_text,
      file_writable = True,
      io_queue = []\<rparr>"

text \<open>
  The answers of \<^verbatim>\<open>parse\<close> on the three texts: the two documents, and the empty
  object for the text that breaks off. Of any other text this example says
  \<^verbatim>\<open>undefined\<close>, the answer to the empty text.
\<close>

definition example_parser :: "string \<Rightarrow> jsval" where
  "example_parser text =
     (if text = example_text
      then JObj Plain [(''authToken'', JStr ''abc''), (''modules'', example_modules)]
      else if text = edited_text
      then JObj Plain [(''authToken'', JStr ''xyz''), (''modules'', example_modules)]
      else if text = broken_text
      then JObj Plain []
      else JUndefined)"

text \<open>The patch of the first text that sets \<^verbatim>\<open>authToken\<close> to \<^verbatim>\<open>"xyz"\<close>.\<close>

definition example_patch :: "string \<Rightarrow> segment list \<Rightarrow> jsval \<Rightarrow> exn + string" where
  "example_patch text p v =
     (if text = example_text
         \<and> p = [Key ''authToken''] \<and> v = JStr ''xyz''
      then Inr edited_text
      else Inl (JsError ''Error''))"

definition note_module :: module where
  "note_module =
     Module ''note'' [''n''] ''Add or delete notes from users''
       [Module ''add'' [] ''Add a note to an user'' [] (JBool True) JUndefined ''note'',
        Module ''clear'' [] ''Clear the notes of an user'' [] (JBool False) JUndefined ''note'']
       (JBool True) JUndefined ''note''"

definition warn_module :: module where
  "warn_module =
     Module ''warn'' [] ''Warn an user''
       [Module ''add'' [] ''Add a warning'' [] (JBool True) JUndefined ''warn'']
       (JBool False) JUndefined ''warn''"

definition example_tree :: "module list" where
  "example_tree = [note_module, warn_module]"

definition alice :: User where
  "alice = \<lparr>id' = ''111'', tag = ''alice#0001''\<rparr>"

definition bob :: User where
  "bob = \<lparr>id' = ''222'', tag = ''bob#0002''\<rparr>"

definition example_fetch :: "string \<Rightarrow> exn + User" where
  "example_fetch a =
     (if a = ''111'' then Inr alice
      else if a = ''222'' then Inr bob
      else Inl (Rejected ''DiscordAPIError''))"

definition example_env :: env where
  "example_env =
     \<lparr>fetch_user = example_fetch, db_fault = (\<lambda>op. None), reply_fault = None,
      now = ''2023-05-01''\<rparr>"

definition failing_env :: "db_op \<Rightarrow> env" where
  "failing_env bad =
     \<lparr>fetch_user = example_fetch,
      db_fault = (\<lambda>op. if op = bad then Some ''MongoNetworkError'' else None),
      reply_fault = None, now = ''2023-05-01''\<rparr>"

definition empty_world :: world where
  "empty_world = \<lparr>collection = [], db_calls = [], replies = []\<rparr>"

definition bob_note :: Note where
  "bob_note = \<lparr>contents = ''late again'', addedBy = ''111'', date = ''2023-04-01''\<rparr>"

definition bob_world :: world where
  "bob_world = \<lparr>collection = [\<lparr>user = ''222'', notes = [bob_note]\<rparr>], db_calls = [], replies = []\<rparr>"

section \<open>Dispatch and disabled modules\<close>

lemma enter_pick_enabled:
  "enter m pos rest = Executed p a \<longrightarrow>
     (\<exists>t. p = pos @ t \<and> enabled_along (submodules m) t)"
  "pick ms pos i tok rest = Some (Executed p a) \<longrightarrow>
     (\<exists>j t. p = pos @ (i + j) # t \<and> enabled_along ms (j # t))"
proof (induction m pos rest and ms pos i tok rest rule: enter_pick.induct)
  case (1 c al h subs en cfg r pos rest)
  show ?case
  proof
    assume ex: "enter (Module c al h subs en cfg r) pos rest = Executed p a"
    show "\<exists>t. p = pos @ t \<and> enabled_along (submodules (Module c al h subs en cfg r)) t"
    proof (cases "subs = []")
      case True
      with ex have "p = pos" by simp
      then show ?thesis by (intro exI [of _ "[]"]) simp
    next
      case False
      with ex have
        "pick subs pos 0 (fst (next_token rest)) (snd (next_token rest)) = Some (Executed p a)"
        by (simp split: option.splits)
      with 1 False obtain j t where "p = pos @ (0 + j) # t" "enabled_along subs (j # t)"
        by blast
      then show ?thesis by (intro exI [of _ "j # t"]) simp
    qed
  qed
next
  case (2 pos i tok rest)
  show ?case by simp
next
  case (3 m ms pos i tok rest)
  show ?case
  proof
    assume pk: "pick (m # ms) pos i tok rest = Some (Executed p a)"
    show "\<exists>j t. p = pos @ (i + j) # t \<and> enabled_along (m # ms) (j # t)"
    proof (cases "js_truthy (enabled m) \<and> matches m tok")
      case True
      with pk have "enter m (pos @ [i]) rest = Executed p a" by simp
      with 3 True obtain t where "p = (pos @ [i]) @ t" "enabled_along (submodules m) t"
        by blast
      with True show ?thesis by (intro exI [of _ 0] exI [of _ t]) simp
    next
      case False
      with pk have "pick ms pos (Suc i) tok rest = Some (Executed p a)" by auto
      with 3 False obtain j t where "p = pos @ (Suc i + j) # t" "enabled_along ms (j # t)"
        by blast
      then show ?thesis by (intro exI [of _ "Suc j"] exI [of _ t]) simp
    qed
  qed
qed

lemma dispatch_Executed_enabled:
  assumes "dispatch roots input = Executed pos args"
  shows "pos \<noteq> [] \<and> enabled_along roots pos"
proof -
  from assms have
    "pick roots [] 0 (fst (next_token input)) (snd (next_token input)) = Some (Executed pos args)"
    by (simp add: dispatch_def split: option.splits)
  with enter_pick_enabled(2) obtain j t where
    "pos = [] @ (0 + j) # t" "enabled_along roots (j # t)"
    by blast
  then show ?thesis by simp
qed

lemma enabled_along_prefix:
  "enabled_along ms p \<Longrightarrow> prefix q p \<Longrightarrow> module_at ms q = Some d \<Longrightarrow> js_truthy (enabled d)"
proof (induction ms q arbitrary: p rule: module_at.induct)
  case (1 ms)
  then show ?case by simp
next
  case (2 ms i)
  then obtain t where "p = i # t" by (auto simp: prefix_def)
  with 2 show ?case by (auto split: if_splits)
next
  case (3 ms i j q)
  then obtain t where "p = i # t" and "prefix (j # q) t" by (auto simp: prefix_def)
  with 3 show ?case by (auto split: if_splits)
qed

text \<open>The dispatcher does invoke the handler of an enabled leaf under an enabled root.\<close>

lemma dispatch_example_executes:
  "dispatch example_tree ''N Add 222 late again'' = Executed [0, 0] '' 222 late again''"
  by (simp add: example_tree_def note_module_def warn_module_def dispatch_def next_token_def
        is_space_def matches_def lower_char_def)

text \<open>
  C1. In the dispatcher as the specification describes it: for every module tree and
  every input text, when the module at a place \<open>q\<close> of the tree is not enabled, no
  invocation of \<^verbatim>\<open>executeCommand\<close> happens at \<open>q\<close> or at any place below \<open>q\<close>
  (the places that \<open>q\<close> is a prefix of), whatever the text and the arguments are.
\<close>

theorem dispatch_never_reaches_disabled:
  assumes "module_at roots q = Some d"
      and "\<not> js_truthy (enabled d)"
      and "prefix q pos"
  shows "dispatch roots input \<noteq> Executed pos args"
proof
  assume "dispatch roots input = Executed pos args"
  then have "enabled_along roots pos" by (simp add: dispatch_Executed_enabled)
  from enabled_along_prefix [OF this assms(3) assms(1)] assms(2) show False by simp
qed

theorem dispatch_never_reaches_disabled_witness:
  "module_at example_tree [1] = Some warn_module
   \<and> enabled warn_module = JBool False
   \<and> prefix [1] [1, 0]
   \<and> dispatch example_tree ''warn add 222 spam'' \<noteq> Executed [1, 0] '' 222 spam''"
proof -
  have a: "module_at example_tree [1] = Some warn_module"
    by (simp add: example_tree_def)
  have b: "enabled warn_module = JBool False"
    by (simp add: warn_module_def)
  then have b': "\<not> js_truthy (enabled warn_module)" by simp
  have c: "prefix [1] [1, 0::nat]" by simp
  from dispatch_never_reaches_disabled
         [OF a b' c, where input = "''warn add 222 spam''" and args = "'' 222 spam''"] a b c
  show ?thesis by simp
qed

section \<open>Construction of a module without a configuration\<close>

text \<open>
  When the \<^verbatim>\<open>in\<close> test of the constructor answers false, the constructor returns
  the module without throwing, the module's \<^verbatim>\<open>enabled\<close> is \<^verbatim>\<open>false\<close>, and the events
  logged during the construction are the warning and the registration notice.
\<close>

lemma new_Module_not_found:
  assumes "map_of (botConfig st) ''modules'' = Some ms"
      and "js_in (root_name c r) ms = Val False"
  shows "\<exists>m st'. new_Module st c h r = (Val m, st') \<and> enabled m = JBool False
           \<and> new_events st st' = [(no_config_event (root_name c r), 1), (registered_event c, 3)]
           \<and> length (warnings (new_events st st')) = 1"
  using assms
  by (simp add: new_Module_def Let_def logEvent_def new_events_def warnings_def
        no_config_event_def registered_event_def)

text \<open>
  For a mapping that is a plain object, the test answers false exactly for the names
  that are neither keys of the mapping nor names of \<^verbatim>\<open>Object.prototype\<close>.
\<close>

lemma js_in_plain_object:
  "js_in k (JObj Plain ps) = Val (map_of ps k \<noteq> None \<or> k \<in> set object_prototype_names)"
  by simp

text \<open>
  C2 says that a root module whose name is absent from the \<^verbatim>\<open>modules\<close> mapping of the
  config is constructed without a throw, with \<^verbatim>\<open>enabled\<close> false and with exactly one
  warning logged. The code does not do so for a name that the mapping inherits: with
  \<^verbatim>\<open>modules\<close> holding the one key \<^verbatim>\<open>note\<close>, the module \<^verbatim>\<open>toString\<close> has no entry, yet
  \<^verbatim>\<open>"toString" in botConfig.modules\<close> is true, the constructor takes the inherited
  function for the config of the module, \<^verbatim>\<open>enabled\<close> becomes \<^verbatim>\<open>undefined\<close>, and the only
  event logged is the registration notice: no warning.
\<close>

theorem new_Module_inherited_name_no_warning:
  "map_of (botConfig example_config) ''modules''
     = Some (JObj Plain [(''note'', JObj Plain [(''enabled'', JBool True)])])
   \<and> map_of [(''note'', JObj Plain [(''enabled'', JBool True)])] (root_name ''toString'' None)
       = None
   \<and> new_Module example_config ''toString'' ''Renders an user as text'' None
       = (Val (Module ''toString'' [] ''Renders an user as text'' [] JUndefined
                 (JFunction ''toString'') ''toString''),
          example_config\<lparr>events := [(registered_event ''toString'', 3)]\<rparr>)
   \<and> warnings (new_events example_config
                  (snd (new_Module example_config ''toString'' ''Renders an user as text'' None)))
       = []"
  by (simp add: example_config_def example_modules_def botConfig_methods_def root_name_def
        new_Module_def Let_def logEvent_def new_events_def warnings_def registered_event_def
        object_prototype_names_def function_names_def inherited_def)

section \<open>Editing a configuration option\<close>

lemma path_check_present: "value_at v p = Some x \<Longrightarrow> path_check v p = Val True"
proof (induction p arbitrary: v)
  case Nil
  then show ?case by simp
next
  case (Cons s ss)
  then show ?case by (cases v) (auto split: option.splits)
qed

text \<open>
  A path that goes on below a primitive makes the check throw: the next round applies
  \<^verbatim>\<open>in\<close> to that value.
\<close>

lemma path_check_below_primitive:
  "value_at v q = Some x \<Longrightarrow> \<not> is_object x \<Longrightarrow> path_check v (q @ s # ss) = Throw TypeError"
proof (induction q arbitrary: v)
  case Nil
  then show ?case by (cases x) auto
next
  case (Cons t q)
  then show ?case by (cases v) (auto split: option.splits)
qed

lemma editConfigOption_below_primitive:
  assumes "value_at (JObj Plain (botConfig st)) q = Some x" and "\<not> is_object x"
  shows "editConfigOption st (q @ s # ss) v = (Threw TypeError, st)"
  using path_check_below_primitive [OF assms] by (simp add: editConfigOption_def)

text \<open>
  Unless the check passes, the edit touches neither the tree in memory nor the file,
  and queues no file request.
\<close>

lemma editConfigOption_unless_check_passes:
  assumes "path_check (JObj Plain (botConfig st)) p \<noteq> Val True"
  shows "botConfig (snd (editConfigOption st p v)) = botConfig st
       \<and> config_file (snd (editConfigOption st p v)) = config_file st
       \<and> io_queue (snd (editConfigOption st p v)) = io_queue st"
  using assms
  by (cases "path_check (JObj Plain (botConfig st)) p")
     (auto simp: editConfigOption_def logEvent_def)

text \<open>
  When the check answers false, the missing segment having been looked for in an
  object, the edit logs the one error event and returns.
\<close>

lemma editConfigOption_missing_key_logged:
  assumes "path_check (JObj Plain (botConfig st)) p = Val False"
  shows "editConfigOption st p v = (Returned, st\<lparr>events := events st @ [(edit_missing_event, 1)]\<rparr>)"
  using assms by (simp add: editConfigOption_def logEvent_def)

text \<open>
  A segment that names a property which the config object only inherits passes the
  check, and the edit then adds the property: the tree changes at a path that was not
  in it.
\<close>

lemma editConfigOption_inherited_name_edits:
  "value_at (JObj Plain (botConfig example_config)) [Key ''toString''] = None
   \<and> editConfigOption example_config [Key ''toString''] (JNum 1)
       = (Returned,
          example_config
            \<lparr>botConfig := botConfig example_config @ [(''toString'', JNum 1)],
             io_queue := [EditJob [Key ''toString''] (JNum 1)]\<rparr>)"
  by (simp add: example_config_def botConfig_methods_def editConfigOption_def
        object_prototype_names_def inherited_def)

text \<open>
  C3 says that an edit at a path with an absent prefix leaves the tree in memory and
  the file as they are, logs an error and returns normally. The code does not do so
  where the path runs through a primitive: with \<^verbatim>\<open>authToken\<close> a string, the path
  \<^verbatim>\<open>["authToken", "x"]\<close> is not in the tree, the second round of the loop evaluates
  \<^verbatim>\<open>"x" in "abc"\<close>, and the call throws a TypeError with nothing logged.
\<close>

theorem editConfigOption_throws_below_primitive:
  "value_at (JObj Plain (botConfig example_config)) [Key ''authToken'', Key ''x''] = None
   \<and> editConfigOption example_config [Key ''authToken'', Key ''x''] (JNum 1)
       = (Threw TypeError, example_config)"
  by (simp add: example_config_def botConfig_methods_def editConfigOption_def
        object_prototype_names_def)

lemma js_set_own:
  "map_of ps k = Some old \<Longrightarrow> js_set (JObj kind ps) k x = Val (JObj kind (AList.update k x ps))"
  by simp

lemma botConfig_set_present:
  "p \<noteq> [] \<Longrightarrow> value_at v p = Some old \<Longrightarrow>
     \<exists>kind ps. botConfig_set v p x = Val (JObj kind ps) \<and> value_at (JObj kind ps) p = Some x"
proof (induction v p x arbitrary: old rule: botConfig_set.induct)
  case (1 schema v)
  then show ?case by simp
next
  case (2 schema s v)
  then show ?case by (cases schema) (auto simp: update_conv' split: option.splits)
next
  case (3 schema s t ss v)
  from "3.prems" obtain kind ps c where sch: "schema = JObj kind ps"
    and c: "map_of ps (prop_key s) = Some c" and at: "value_at c (t # ss) = Some old"
    by (cases schema) (auto split: option.splits)
  from sch c have get: "js_get schema (prop_key s) = Val c" by simp
  from "3.IH" [OF get _ at] obtain k' ps' where
    set: "botConfig_set c (t # ss) v = Val (JObj k' ps')"
    and at': "value_at (JObj k' ps') (t # ss) = Some v" by auto
  show ?case using sch c get set at' by (simp add: update_conv')
qed

text \<open>
  In memory the edit does what it is meant to do: for a non-empty path all of whose
  segments exist in the tree, with \<^verbatim>\<open>_set\<close> still the method, the edit returns with
  the new value at the path. It returns with the file as it was and the file request
  queued.
\<close>

lemma editConfigOption_present:
  assumes "p \<noteq> []" and "value_at (JObj Plain (botConfig st)) p = Some old"
      and "map_of (botConfig st) ''_set'' = Some (JFunction ''_set'')"
  shows "fst (editConfigOption st p v) = Returned"
    and "value_at (JObj Plain (botConfig (snd (editConfigOption st p v)))) p = Some v"
    and "io_queue (snd (editConfigOption st p v)) = io_queue st @ [EditJob p v]"
    and "config_file (snd (editConfigOption st p v)) = config_file st"
proof -
  from botConfig_set_present [OF assms(1,2), of v] obtain kind ps where
    set: "botConfig_set (JObj Plain (botConfig st)) p v = Val (JObj kind ps)"
    and at: "value_at (JObj kind ps) p = Some v" by blast
  from assms(1) at have at': "value_at (JObj Plain ps) p = Some v"
    by (cases p) auto
  note chk = path_check_present [OF assms(2)]
  show "fst (editConfigOption st p v) = Returned"
    using chk set assms(3) by (simp add: editConfigOption_def)
  show "value_at (JObj Plain (botConfig (snd (editConfigOption st p v)))) p = Some v"
    using chk set at' assms(3) by (simp add: editConfigOption_def)
  show "io_queue (snd (editConfigOption st p v)) = io_queue st @ [EditJob p v]"
    using chk set assms(3) by (simp add: editConfigOption_def)
  show "config_file (snd (editConfigOption st p v)) = config_file st"
    using chk set assms(3) by (simp add: editConfigOption_def)
qed

text \<open>
  At the empty path \<^verbatim>\<open>_set\<close> writes the property \<^verbatim>\<open>undefined\<close> of the config object:
  the edit returns, and the value of the tree at the empty path, the tree itself, is
  not the new value.
\<close>

lemma editConfigOption_empty_path:
  "fst (editConfigOption example_config [] (JNum 2)) = Returned
   \<and> botConfig (snd (editConfigOption example_config [] (JNum 2)))
       = botConfig example_config @ [(''undefined'', JNum 2)]
   \<and> value_at (JObj Plain (botConfig (snd (editConfigOption example_config [] (JNum 2))))) []
       \<noteq> Some (JNum 2)"
  by (simp add: example_config_def botConfig_methods_def editConfigOption_def)

text \<open>
  A config object on which a key \<^verbatim>\<open>_set\<close> holds data has lost the method: an edit
  whose check passes throws at the call of \<^verbatim>\<open>this._set\<close>.
\<close>

lemma editConfigOption_set_shadowed:
  assumes "path_check (JObj Plain (botConfig st)) p = Val True"
      and "map_of (botConfig st) ''_set'' = Some x"
      and "\<forall>f. x \<noteq> JFunction f" and "\<forall>r. x \<noteq> JRuntime r"
  shows "editConfigOption st p v = (Threw TypeError, st)"
  using assms by (cases x) (auto simp: editConfigOption_def)

text \<open>
  The callback logs the same event whether the file could be written or not; a file
  that cannot be written keeps its content.
\<close>

lemma run_edit_job_write_fails:
  assumes "config_file st = Some file" and "patch file p v = Inr newConfig"
      and "\<not> file_writable st"
  shows "run_edit_job patch st (EditJob p v)
           = (Returned, st\<lparr>events := events st @ [(edit_done_event, 2)]\<rparr>)"
  using assms by (simp add: logEvent_def)

text \<open>
  C4 says that after \<^verbatim>\<open>editConfigOption\<close> completes, the tree in memory has the new
  value at the path and a fresh parse of the backing file yields the same value. The
  code does not do the second: \<^verbatim>\<open>await readFile(..., callback)\<close> waits for nothing, so
  the promise settles with the file request only queued. With \<^verbatim>\<open>authToken\<close> edited
  from \<^verbatim>\<open>"abc"\<close> to \<^verbatim>\<open>"xyz"\<close>, the edit has returned, the tree in memory holds
  \<^verbatim>\<open>"xyz"\<close>, the file has its old text, and a fresh parse of it yields \<^verbatim>\<open>"abc"\<close>.
\<close>

theorem editConfigOption_settles_before_file_is_written:
  "value_at (JObj Plain (botConfig example_config)) [Key ''authToken''] = Some (JStr ''abc'')
   \<and> fst (editConfigOption example_config [Key ''authToken''] (JStr ''xyz'')) = Returned
   \<and> value_at (JObj Plain (botConfig
         (snd (editConfigOption example_config [Key ''authToken''] (JStr ''xyz'')))))
         [Key ''authToken''] = Some (JStr ''xyz'')
   \<and> config_file (snd (editConfigOption example_config [Key ''authToken''] (JStr ''xyz'')))
       = Some example_text
   \<and> io_queue (snd (editConfigOption example_config [Key ''authToken''] (JStr ''xyz'')))
       = [EditJob [Key ''authToken''] (JStr ''xyz'')]
   \<and> fresh_value_at example_parser
         (snd (editConfigOption example_config [Key ''authToken''] (JStr ''xyz'')))
         [Key ''authToken''] = Some (JStr ''abc'')"
  by (simp add: example_config_def botConfig_methods_def editConfigOption_def
        object_prototype_names_def fresh_value_at_def example_parser_def)

text \<open>
  Only when the callback of the request has run does the file hold the patched text.
\<close>

lemma edit_job_writes_later:
  "fresh_value_at example_parser
     (snd (run_edit_job example_patch
             (snd (editConfigOption example_config [Key ''authToken''] (JStr ''xyz'')))
             (EditJob [Key ''authToken''] (JStr ''xyz''))))
     [Key ''authToken''] = Some (JStr ''xyz'')"
  by (simp add: example_config_def botConfig_methods_def editConfigOption_def
        object_prototype_names_def fresh_value_at_def example_parser_def example_patch_def
        logEvent_def example_text_def edited_text_def)

section \<open>Loading the configuration\<close>

lemma assign_props_lookup:
  "distinct (map fst ps) \<Longrightarrow> ''__proto__'' \<notin> fst ` set ps \<Longrightarrow>
     \<exists>target'. assign_props target ps = Val target'
        \<and> map_of target' = map_of target ++ map_of ps"
proof (induction ps arbitrary: target)
  case Nil
  then show ?case by simp
next
  case (Cons a ps)
  obtain k v where a: "a = (k, v)" by (cases a)
  with Cons.prems have k: "k \<notin> dom (map_of ps)" and d: "distinct (map fst ps)"
    and k': "k \<noteq> ''__proto__''" and n: "''__proto__'' \<notin> fst ` set ps"
    by (auto simp: dom_map_of_conv_image_fst)
  from k' have set: "js_set (JObj Plain target) k v = Val (JObj Plain (AList.update k v target))"
    by simp
  from Cons.IH [OF d n, of "AList.update k v target"] obtain target' where
    t: "assign_props (AList.update k v target) ps = Val target'"
    and m: "map_of target' = map_of (AList.update k v target) ++ map_of ps" by blast
  have eq: "map_of (AList.update k v target) ++ map_of ps = map_of target ++ map_of (a # ps)"
    using k a by (auto simp: map_add_def fun_eq_iff update_conv' split: option.splits)
  have "assign_props target (a # ps) = Val target'"
    using a set t by simp
  moreover have "map_of target' = map_of target ++ map_of (a # ps)"
    by (rule trans [OF m eq])
  ultimately show ?case by blast
qed

text \<open>
  A missing file is the one case in which the loader throws. A readable file loads
  whatever its content: the loader returns, and the properties of the object that the
  parser answered with are properties of the config object.
\<close>

lemma readConfigFromFileSystem_missing_file:
  "config_file st = None \<Longrightarrow>
     readConfigFromFileSystem parseJSONC st = (Threw config_load_error, st)"
  by (simp add: readConfigFromFileSystem_def)

lemma readConfigFromFileSystem_never_throws_on_content:
  "config_file st = Some text \<Longrightarrow> fst (readConfigFromFileSystem parseJSONC st) \<noteq> Threw e"
proof -
  have "assign_props target ps \<noteq> Throw x" for target ps x
  proof (induction ps arbitrary: target)
    case Nil
    show ?case by simp
  next
    case (Cons a ps)
    obtain k v where a: "a = (k, v)" by (cases a)
    show ?case using Cons a by (simp split: res.splits)
  qed
  then show "config_file st = Some text \<Longrightarrow>
      fst (readConfigFromFileSystem parseJSONC st) \<noteq> Threw e"
    by (simp add: readConfigFromFileSystem_def object_assign_def split: res.splits)
qed

lemma readConfigFromFileSystem_populates:
  assumes "config_file st = Some text" and "parseJSONC text = JObj kind ps"
      and "distinct (map fst ps)" and "''__proto__'' \<notin> fst ` set ps"
  shows "fst (readConfigFromFileSystem parseJSONC st) = Returned
       \<and> map_of (botConfig (snd (readConfigFromFileSystem parseJSONC st)))
           = map_of (botConfig st) ++ map_of ps"
proof -
  from assign_props_lookup [OF assms(3,4), of "botConfig st"] obtain target' where
    "assign_props (botConfig st) ps = Val target'"
    "map_of target' = map_of (botConfig st) ++ map_of ps" by blast
  with assms(1,2) show ?thesis
    by (simp add: readConfigFromFileSystem_def object_assign_def)
qed

text \<open>
  C5 says that the loader throws when the file is missing and when its content cannot
  be parsed, and populates the tree otherwise. The code does the first and the third,
  not the second: the parser answers the text that breaks off with the empty object
  and throws nothing, so the loader returns normally with a config object that holds no
  data.
\<close>

theorem readConfigFromFileSystem_loads_broken_file:
  "config_file broken_config = Some broken_text
   \<and> readConfigFromFileSystem example_parser broken_config = (Returned, broken_config)
   \<and> map_of (botConfig (snd (readConfigFromFileSystem example_parser broken_config)))
        ''modules'' = None"
  by (simp add: broken_config_def botConfig_methods_def readConfigFromFileSystem_def
        object_assign_def example_parser_def example_text_def edited_text_def broken_text_def)

section \<open>The note commands\<close>

lemma find_update_first:
  "find (\<lambda>r. user r = u) rs = Some r \<Longrightarrow>
     find (\<lambda>r. user r = u) (update_first u ns rs) = Some (r\<lparr>notes := ns\<rparr>)"
  by (induction rs) (auto split: if_splits)

lemma find_append_new:
  "find P rs = None \<Longrightarrow> P x \<Longrightarrow> find P (rs @ [x]) = Some x"
  by (induction rs) (auto split: if_splits)

lemma find_delete_first:
  "distinct (map user rs) \<Longrightarrow> find (\<lambda>r. user r = u) (delete_first u rs) = None"
proof (induction rs)
  case Nil
  then show ?case by simp
next
  case (Cons r rs)
  show ?case
  proof (cases "user r = u")
    case True
    with Cons.prems have "u \<notin> user ` set rs" by auto
    then have "find (\<lambda>r. user r = u) rs = None" by (auto simp: find_None_iff)
    with True show ?thesis by simp
  next
    case False
    with Cons show ?thesis by simp
  qed
qed

lemma users_update_first:
  "map user (update_first u ns rs)
     = (if u \<in> user ` set rs then map user rs else map user rs @ [u])"
  by (induction rs) auto

lemma set_delete_first: "set (delete_first u rs) \<subseteq> set rs"
  by (induction rs) auto

lemma distinct_delete_first:
  "distinct (map user rs) \<Longrightarrow> distinct (map user (delete_first u rs))"
proof (induction rs)
  case Nil
  then show ?case by simp
next
  case (Cons r rs)
  then show ?case using set_delete_first [of u rs] by auto
qed

text \<open>
  The handlers keep one record per user, whatever the collaborators answer: a record
  is inserted only after \<^verbatim>\<open>findOne\<close> found none.
\<close>

lemma note_add_keeps_one_record:
  "one_record_per_user w \<Longrightarrow> one_record_per_user (snd (note_add e args caller w))"
  by (auto simp: note_add_def arg_value_def getRecord_def
        records_findOne_def record_of_def records_insertOne_def records_updateOne_def
        collection_call_def caught_def
        one_record_per_user_def Let_def users_update_first
        find_None_iff split: sum.splits option.splits)

lemma note_clear_keeps_one_record:
  "one_record_per_user w \<Longrightarrow> one_record_per_user (snd (note_clear e args w))"
  by (auto simp: note_clear_def arg_value_def getRecord_def deleteRecord_def
        records_findOne_def record_of_def records_deleteOne_def collection_call_def caught_def
        one_record_per_user_def distinct_delete_first
        split: sum.splits option.splits)

lemma note_get_keeps_collection:
  "collection (snd (note_get e args w)) = collection w"
  by (auto simp: note_get_def arg_value_def getRecord_def records_findOne_def
        record_of_def collection_call_def replyToInteraction_def
        split: sum.splits option.splits)

lemma find_append_other:
  "\<not> P x \<Longrightarrow> find P (rs @ [x]) = find P rs"
  by (induction rs) auto

lemma find_other_update_first:
  "u' \<noteq> u \<Longrightarrow>
     find (\<lambda>r. user r = u') (update_first u ns rs) = find (\<lambda>r. user r = u') rs"
  by (induction rs) auto

text \<open>
  The only replies that \<^verbatim>\<open>add\<close> and \<^verbatim>\<open>clear\<close> return: none of them carries the
  name of an error of the collection.
\<close>

lemma note_add_replies:
  "fst (note_add e args caller w) = Inr (Some r) \<Longrightarrow>
     r = errorEmbed ''You cannot add a note for yourself''
     \<or> r = successEmbed ''Succesfully added that note''"
  by (auto simp: note_add_def arg_value_def getRecord_def records_findOne_def
        records_insertOne_def records_updateOne_def collection_call_def caught_def Let_def
        split: sum.splits option.splits if_splits prod.splits)

lemma note_clear_replies:
  "fst (note_clear e args w) = Inr (Some r) \<Longrightarrow>
     (\<exists>t. r = errorEmbed (''`'' @ t @ ''` doesn't have any notes''))
     \<or> (\<exists>t. r = successEmbed (''Succesfully removed notes for `'' @ t @ ''`''))"
  by (auto simp: note_clear_def arg_value_def getRecord_def deleteRecord_def
        records_findOne_def records_deleteOne_def collection_call_def caught_def
        split: sum.splits option.splits if_splits prod.splits)

text \<open>
  With the write calls of the collection rejecting, \<^verbatim>\<open>add\<close> for another user still
  returns its success embed, and the collection is as before.
\<close>

lemma note_add_rejection_swallowed:
  assumes "map_of args ''user'' = Some a" and "map_of args ''note'' = Some c"
      and "fetch_user e a = Inr u" and "caller \<noteq> id' u"
      and "db_fault e FindOne = None"
      and "db_fault e InsertOne = Some n" and "db_fault e UpdateOne = Some n"
  shows "fst (note_add e args caller w) = Inr (Some (successEmbed ''Succesfully added that note''))
       \<and> collection (snd (note_add e args caller w)) = collection w"
  using assms
  by (auto simp: note_add_def arg_value_def getRecord_def records_findOne_def
        records_insertOne_def records_updateOne_def collection_call_def caught_def Let_def
        split: option.splits)

text \<open>
  C6 says that \<^verbatim>\<open>add\<close> and \<^verbatim>\<open>clear\<close> answer a rejecting call of the document
  store with an error reply that carries the name of the error, and do not propagate
  the rejection. The code does not do so. The handler given to \<^verbatim>\<open>catch\<close> returns the
  error embed to the awaited expression, whose value is dropped: with \<^verbatim>\<open>insertOne\<close>,
  \<^verbatim>\<open>updateOne\<close> or \<^verbatim>\<open>deleteOne\<close> rejecting, the handlers return their success
  embed while the collection is as before. With \<^verbatim>\<open>findOne\<close> rejecting, which has no
  \<^verbatim>\<open>catch\<close>, the rejection reaches the caller.
\<close>

theorem note_handlers_report_success_on_rejection:
  "note_add (failing_env InsertOne) [(''user'', ''222''), (''note'', ''test'')] ''111'' empty_world
     = (Inr (Some (successEmbed ''Succesfully added that note'')),
        \<lparr>collection = [],
         db_calls = [findOne ''222'',
                     insertOne \<lparr>user = ''222'',
                                notes = [\<lparr>contents = ''test'', addedBy = ''111'',
                                          date = ''2023-05-01''\<rparr>]\<rparr>],
         replies = []\<rparr>)
   \<and> note_add (failing_env UpdateOne) [(''user'', ''222''), (''note'', ''test'')] ''111'' bob_world
     = (Inr (Some (successEmbed ''Succesfully added that note'')),
        \<lparr>collection = [\<lparr>user = ''222'', notes = [bob_note]\<rparr>],
         db_calls = [findOne ''222'',
                     updateOne ''222''
                       [bob_note, \<lparr>contents = ''test'', addedBy = ''111'',
                                   date = ''2023-05-01''\<rparr>]],
         replies = []\<rparr>)
   \<and> note_clear (failing_env DeleteOne) [(''user'', ''222'')] bob_world
     = (Inr (Some (successEmbed ''Succesfully removed notes for `bob#0002`'')),
        \<lparr>collection = [\<lparr>user = ''222'', notes = [bob_note]\<rparr>],
         db_calls = [findOne ''222'', deleteOne ''222''],
         replies = []\<rparr>)
   \<and> note_add (failing_env FindOne) [(''user'', ''222''), (''note'', ''test'')] ''111'' empty_world
     = (Inl (Rejected ''MongoNetworkError''),
        \<lparr>collection = [], db_calls = [findOne ''222''], replies = []\<rparr>)"
  by (simp add: note_add_def note_clear_def arg_value_def getRecord_def deleteRecord_def
        records_findOne_def record_of_def records_insertOne_def records_updateOne_def
        records_deleteOne_def collection_call_def caught_def failing_env_def example_fetch_def
        bob_def empty_world_def bob_world_def bob_note_def)

text \<open>
  C10. When the user fetched for the \<^verbatim>\<open>user\<close> option is the invoking user, \<^verbatim>\<open>add\<close>
  returns the error embed \<^verbatim>\<open>You cannot add a note for yourself\<close> and leaves the
  collection and the list of calls made on it as they were: no call is made.
\<close>

theorem note_add_self:
  assumes "map_of args ''user'' = Some a"
      and "fetch_user e a = Inr u"
      and "id' u = caller"
  shows "note_add e args caller w
           = (Inr (Some (errorEmbed ''You cannot add a note for yourself'')), w)"
  using assms by (simp add: note_add_def arg_value_def)

theorem note_add_self_witness:
  "map_of [(''user'', ''111''), (''note'', ''test'')] ''user'' = Some ''111''
   \<and> fetch_user example_env ''111'' = Inr alice
   \<and> id' alice = ''111''
   \<and> note_add example_env [(''user'', ''111''), (''note'', ''test'')] ''111'' bob_world
       = (Inr (Some (errorEmbed ''You cannot add a note for yourself'')), bob_world)"
proof -
  have a: "map_of [(''user'', ''111''), (''note'', ''test'')] ''user'' = Some ''111''" by simp
  have b: "fetch_user example_env ''111'' = Inr alice"
    by (simp add: example_env_def example_fetch_def)
  have c: "id' alice = ''111''" by (simp add: alice_def)
  from note_add_self [OF a b c] a b c show ?thesis by simp
qed

text \<open>
  C7, as stated, fails when the user is the invoking user: \<^verbatim>\<open>add\<close> stops at its
  guard, and a user without a record still has none.
\<close>

theorem note_add_self_creates_nothing_counterexample:
  "record_of ''111'' empty_world = None
   \<and> fst (note_add example_env [(''user'', ''111''), (''note'', ''test'')] ''111'' empty_world)
       = Inr (Some (errorEmbed ''You cannot add a note for yourself''))
   \<and> record_of ''111''
        (snd (note_add example_env [(''user'', ''111''), (''note'', ''test'')] ''111'' empty_world))
       = None"
  by (simp add: note_add_def arg_value_def record_of_def example_env_def example_fetch_def
        alice_def empty_world_def)

text \<open>
  C7, amended. For every user other than the invoking user, in a run in which the
  calls on the collection resolve: when the user has no record, \<^verbatim>\<open>add\<close> inserts a
  record of that user with exactly the new note; when the user has a record, the record
  afterwards has the notes it had, in their order, followed by the new note. The
  records of the other users are as before.
\<close>

theorem note_add_stores:
  assumes "healthy e"
      and "map_of args ''user'' = Some a"
      and "map_of args ''note'' = Some c"
      and "fetch_user e a = Inr u"
      and "caller \<noteq> id' u"
  shows "fst (note_add e args caller w) = Inr (Some (successEmbed ''Succesfully added that note''))
       \<and> (record_of (id' u) w = None \<longrightarrow>
            collection (snd (note_add e args caller w))
              = collection w
                @ [\<lparr>user = id' u,
                    notes = [\<lparr>contents = c, addedBy = caller, date = now e\<rparr>]\<rparr>]
          \<and> record_of (id' u) (snd (note_add e args caller w))
              = Some \<lparr>user = id' u,
                      notes = [\<lparr>contents = c, addedBy = caller, date = now e\<rparr>]\<rparr>)
       \<and> (\<forall>r. record_of (id' u) w = Some r \<longrightarrow>
            record_of (id' u) (snd (note_add e args caller w))
              = Some (r\<lparr>notes := notes r @ [\<lparr>contents = c, addedBy = caller, date = now e\<rparr>]\<rparr>))
       \<and> (\<forall>u'. u' \<noteq> id' u \<longrightarrow>
            record_of u' (snd (note_add e args caller w)) = record_of u' w)"
  using assms
  by (auto simp: note_add_def arg_value_def getRecord_def
        records_findOne_def record_of_def records_insertOne_def records_updateOne_def
        collection_call_def caught_def healthy_def
        Let_def find_update_first find_append_new
        find_append_other find_other_update_first split: option.splits)

theorem note_add_stores_witness:
  "healthy example_env
   \<and> map_of [(''user'', ''222''), (''note'', ''test'')] ''user'' = Some ''222''
   \<and> map_of [(''user'', ''222''), (''note'', ''test'')] ''note'' = Some ''test''
   \<and> fetch_user example_env ''222'' = Inr bob
   \<and> ''111'' \<noteq> id' bob
   \<and> record_of (id' bob) empty_world = None
   \<and> record_of (id' bob)
        (snd (note_add example_env [(''user'', ''222''), (''note'', ''test'')] ''111'' empty_world))
       = Some \<lparr>user = id' bob,
               notes = [\<lparr>contents = ''test'', addedBy = ''111'', date = now example_env\<rparr>]\<rparr>
   \<and> record_of (id' bob) bob_world = Some \<lparr>user = ''222'', notes = [bob_note]\<rparr>
   \<and> record_of (id' bob)
        (snd (note_add example_env [(''user'', ''222''), (''note'', ''test'')] ''111'' bob_world))
       = Some (\<lparr>user = ''222'', notes = [bob_note]\<rparr>
                 \<lparr>notes := notes \<lparr>user = ''222'', notes = [bob_note]\<rparr>
                    @ [\<lparr>contents = ''test'', addedBy = ''111'', date = now example_env\<rparr>]\<rparr>)
   \<and> record_of ''111''
        (snd (note_add example_env [(''user'', ''222''), (''note'', ''test'')] ''111'' bob_world))
       = record_of ''111'' bob_world"
proof -
  have h: "healthy example_env" by (simp add: healthy_def example_env_def)
  have a: "map_of [(''user'', ''222''), (''note'', ''test'')] ''user'' = Some ''222''" by simp
  have c: "map_of [(''user'', ''222''), (''note'', ''test'')] ''note'' = Some ''test''" by simp
  have f: "fetch_user example_env ''222'' = Inr bob"
    by (simp add: example_env_def example_fetch_def)
  have n: "''111'' \<noteq> id' bob" by (simp add: bob_def)
  have r0: "record_of (id' bob) empty_world = None"
    by (simp add: record_of_def empty_world_def)
  have r1: "record_of (id' bob) bob_world = Some \<lparr>user = ''222'', notes = [bob_note]\<rparr>"
    by (simp add: record_of_def bob_world_def bob_def)
  note t0 = note_add_stores [OF h a c f n, of empty_world]
  note t1 = note_add_stores [OF h a c f n, of bob_world]
  from t0 r0 have 0: "record_of (id' bob)
        (snd (note_add example_env [(''user'', ''222''), (''note'', ''test'')] ''111'' empty_world))
       = Some \<lparr>user = id' bob,
               notes = [\<lparr>contents = ''test'', addedBy = ''111'', date = now example_env\<rparr>]\<rparr>"
    by blast
  from t1 r1 have 1: "record_of (id' bob)
        (snd (note_add example_env [(''user'', ''222''), (''note'', ''test'')] ''111'' bob_world))
       = Some (\<lparr>user = ''222'', notes = [bob_note]\<rparr>
                 \<lparr>notes := notes \<lparr>user = ''222'', notes = [bob_note]\<rparr>
                    @ [\<lparr>contents = ''test'', addedBy = ''111'', date = now example_env\<rparr>]\<rparr>)"
    by blast
  from t1 n have 2: "record_of ''111''
        (snd (note_add example_env [(''user'', ''222''), (''note'', ''test'')] ''111'' bob_world))
       = record_of ''111'' bob_world"
    by blast
  from h a c f n r0 r1 0 1 2 show ?thesis by blast
qed

text \<open>
  C8. In a run in which the calls on the collection resolve: \<^verbatim>\<open>clear\<close> for a user
  without a record returns the error embed and the only call it makes on the collection
  is the \<^verbatim>\<open>findOne\<close>, so no deletion is issued; \<^verbatim>\<open>clear\<close> for a user with a record,
  the collection holding one record per user, leaves no record of that user, and a
  following \<^verbatim>\<open>get\<close> for the same user returns the error embed that says that the user
  does not have any notes.
\<close>

theorem note_clear_removes:
  assumes "healthy e"
      and "map_of args ''user'' = Some a"
      and "fetch_user e a = Inr u"
  shows "(record_of (id' u) w = None \<longrightarrow>
            note_clear e args w
              = (Inr (Some (errorEmbed (''`'' @ tag u @ ''` doesn't have any notes''))),
                 w\<lparr>db_calls := db_calls w @ [findOne (id' u)]\<rparr>))
       \<and> (\<forall>r. record_of (id' u) w = Some r \<and> one_record_per_user w \<longrightarrow>
            fst (note_clear e args w)
              = Inr (Some (successEmbed (''Succesfully removed notes for `'' @ tag u @ ''`'')))
          \<and> db_calls (snd (note_clear e args w))
              = db_calls w @ [findOne (id' u), deleteOne (id' u)]
          \<and> record_of (id' u) (snd (note_clear e args w)) = None
          \<and> (\<forall>e'. healthy e' \<and> fetch_user e' a = Inr u \<longrightarrow>
                fst (note_get e' args (snd (note_clear e args w)))
                  = Inr (Some (errorEmbed (''`'' @ tag u @ ''` doesn't have any notes'')))))"
  using assms
  by (auto simp: note_clear_def note_get_def arg_value_def getRecord_def deleteRecord_def
        records_findOne_def record_of_def records_deleteOne_def collection_call_def caught_def
        replyToInteraction_def healthy_def one_record_per_user_def
        find_delete_first)

theorem note_clear_removes_witness:
  "healthy example_env
   \<and> map_of [(''user'', ''222'')] ''user'' = Some ''222''
   \<and> fetch_user example_env ''222'' = Inr bob
   \<and> record_of (id' bob) empty_world = None
   \<and> note_clear example_env [(''user'', ''222'')] empty_world
       = (Inr (Some (errorEmbed (''`'' @ tag bob @ ''` doesn't have any notes''))),
          empty_world\<lparr>db_calls := db_calls empty_world @ [findOne (id' bob)]\<rparr>)
   \<and> record_of (id' bob) bob_world = Some \<lparr>user = ''222'', notes = [bob_note]\<rparr>
   \<and> one_record_per_user bob_world
   \<and> record_of (id' bob) (snd (note_clear example_env [(''user'', ''222'')] bob_world)) = None
   \<and> fst (note_get example_env [(''user'', ''222'')]
             (snd (note_clear example_env [(''user'', ''222'')] bob_world)))
       = Inr (Some (errorEmbed (''`'' @ tag bob @ ''` doesn't have any notes'')))"
proof -
  have h: "healthy example_env" by (simp add: healthy_def example_env_def)
  have a: "map_of [(''user'', ''222'')] ''user'' = Some ''222''" by simp
  have f: "fetch_user example_env ''222'' = Inr bob"
    by (simp add: example_env_def example_fetch_def)
  have r0: "record_of (id' bob) empty_world = None"
    by (simp add: record_of_def empty_world_def)
  have r1: "record_of (id' bob) bob_world = Some \<lparr>user = ''222'', notes = [bob_note]\<rparr>"
    by (simp add: record_of_def bob_world_def bob_def)
  have i: "one_record_per_user bob_world"
    by (simp add: one_record_per_user_def bob_world_def)
  note t0 = note_clear_removes [OF h a f, of empty_world]
  note t1 = note_clear_removes [OF h a f, of bob_world]
  from t0 r0 have 0: "note_clear example_env [(''user'', ''222'')] empty_world
       = (Inr (Some (errorEmbed (''`'' @ tag bob @ ''` doesn't have any notes''))),
          empty_world\<lparr>db_calls := db_calls empty_world @ [findOne (id' bob)]\<rparr>)"
    by blast
  from t1 r1 i have 1:
    "record_of (id' bob) (snd (note_clear example_env [(''user'', ''222'')] bob_world)) = None"
    by blast
  from t1 r1 i h f have 2:
    "fst (note_get example_env [(''user'', ''222'')]
            (snd (note_clear example_env [(''user'', ''222'')] bob_world)))
       = Inr (Some (errorEmbed (''`'' @ tag bob @ ''` doesn't have any notes'')))"
    by blast
  from h a f r0 r1 i 0 1 2 show ?thesis by blast
qed

text \<open>
  C9, as stated, fails when the invoking user is the user \<open>U\<close>: \<^verbatim>\<open>add\<close> stops at its
  guard, \<^verbatim>\<open>get\<close> finds no record and returns the error embed, and no attachment is
  emitted.
\<close>

theorem note_add_self_then_get_counterexample:
  "record_of ''111'' empty_world = None
   \<and> fst (note_get example_env [(''user'', ''111'')]
            (snd (note_add example_env [(''user'', ''111''), (''note'', ''test'')] ''111''
                    empty_world)))
       = Inr (Some (errorEmbed ''`alice#0001` doesn't have any notes''))
   \<and> replies (snd (note_get example_env [(''user'', ''111'')]
                (snd (note_add example_env [(''user'', ''111''), (''note'', ''test'')] ''111''
                        empty_world))))
       = []"
  by (simp add: note_add_def note_get_def arg_value_def getRecord_def records_findOne_def
        record_of_def collection_call_def example_env_def example_fetch_def alice_def
        empty_world_def)

text \<open>
  C9, amended. Starting from a collection with no record of user \<open>U\<close>, with an invoking
  user other than \<open>U\<close>, in a run in which the calls on the collection and the delivery
  of the reply resolve: \<^verbatim>\<open>add user=U note="test"\<close> followed by \<^verbatim>\<open>get user=U\<close> emits
  one attachment, whose parsed JSON is the object with the one key \<^verbatim>\<open>notes\<close> holding
  the array of the one note with \<^verbatim>\<open>contents\<close> "test", \<^verbatim>\<open>addedBy\<close> the invoking user
  and \<^verbatim>\<open>date\<close> the formatted date of the \<^verbatim>\<open>add\<close>.
\<close>

theorem note_add_then_get:
  assumes "healthy e1" and "healthy e2"
      and "fetch_user e1 a = Inr u" and "fetch_user e2 a = Inr u"
      and "caller \<noteq> id' u"
      and "record_of (id' u) w = None"
  shows "\<exists>f. replies (snd (note_get e2 [(''user'', a)]
                 (snd (note_add e1 [(''user'', a), (''note'', ''test'')] caller w))))
               = replies w @ [f]
           \<and> JSON_parse (attachment f)
               = JObj Plain [(''notes'', js_array
                   [JObj Plain [(''contents'', JStr ''test''), (''addedBy'', JStr caller),
                                (''date'', JStr (now e1))]])]"
  using assms
  by (auto simp: note_add_def note_get_def arg_value_def getRecord_def
        records_findOne_def record_of_def records_insertOne_def records_updateOne_def
        collection_call_def caught_def
        replyToInteraction_def healthy_def Let_def find_append_new notes_json_def
        note_json_def)

theorem note_add_then_get_witness:
  "healthy example_env
   \<and> fetch_user example_env ''222'' = Inr bob
   \<and> ''111'' \<noteq> id' bob
   \<and> record_of (id' bob) empty_world = None
   \<and> (\<exists>f. replies (snd (note_get example_env [(''user'', ''222'')]
                 (snd (note_add example_env [(''user'', ''222''), (''note'', ''test'')] ''111''
                         empty_world))))
               = replies empty_world @ [f]
           \<and> JSON_parse (attachment f)
               = JObj Plain [(''notes'', js_array
                   [JObj Plain [(''contents'', JStr ''test''), (''addedBy'', JStr ''111''),
                                (''date'', JStr (now example_env))]])])"
proof -
  have h: "healthy example_env" by (simp add: healthy_def example_env_def)
  have f: "fetch_user example_env ''222'' = Inr bob"
    by (simp add: example_env_def example_fetch_def)
  have n: "''111'' \<noteq> id' bob" by (simp add: bob_def)
  have r0: "record_of (id' bob) empty_world = None"
    by (simp add: record_of_def empty_world_def)
  from note_add_then_get [OF h h f f n r0] h f n r0 show ?thesis by blast
qed

end
